theory Spec2Isabelle
  imports Main
begin

section \<open>Values shared by the three modules\<close>

text \<open>
  A JavaScript error as the code reads it: \<open>error.message\<close>, and
  \<open>error.response.status\<close> when the HTTP client attached a response
  (\<open>None\<close> when \<open>error.response\<close> is undefined). \<open>new Error(m)\<close> is
  \<open>JsError m None\<close>.

  The fixed message texts of the source are Chinese; they are rendered here by
  English ASCII texts, one per source literal, and the interpolated parts
  (\<open>${siteId}\<close>, \<open>${filePath}\<close>, ...) are kept as they are.
\<close>

datatype js_error = JsError (message: string) (response: "int option")

definition new_Error :: "string \<Rightarrow> js_error" where
  "new_Error m = JsError m None"

text \<open>\<open>n.toString()\<close> for an integer.\<close>

fun digits :: "nat \<Rightarrow> string" where
  "digits n = (if n < 10 then [char_of (48 + n)] else digits (n div 10) @ [char_of (48 + n mod 10)])"

definition toString :: "int \<Rightarrow> string" where
  "toString i = (if i < 0 then CHR ''-'' # digits (nat (- i)) else digits (nat i))"

section \<open>The path module\<close>

text \<open>
  The functions of Node's \<open>path\<close> module that the code calls. Their behaviour
  depends on the host platform, so the API client is parametrised by them;
  \<open>posix\<close> below is the instance of a POSIX host.
\<close>

record pathlib =
  path_join :: "string \<Rightarrow> string \<Rightarrow> string"
  path_relative :: "string \<Rightarrow> string \<Rightarrow> string"
  path_dirname :: "string \<Rightarrow> string"
  path_basename :: "string \<Rightarrow> string"
  path_resolve :: "string \<Rightarrow> string"

text \<open>The segments of a path: the maximal runs of characters other than \<open>/\<close>.\<close>

fun segments_acc :: "string \<Rightarrow> string \<Rightarrow> string list" where
  "segments_acc cur [] = (if cur = [] then [] else [cur])"
| "segments_acc cur (c # cs) =
     (if c = CHR ''/'' then (if cur = [] then segments_acc [] cs else cur # segments_acc [] cs)
      else segments_acc (cur @ [c]) cs)"

definition segments :: "string \<Rightarrow> string list" where
  "segments p = segments_acc [] p"

text \<open>
  Node's \<open>normalizeString\<close> on segments: \<open>.\<close> is dropped, \<open>..\<close> removes the
  segment before it; at the start, \<open>..\<close> is kept for a relative path and
  dropped for an absolute one. The stack holds the result reversed.
\<close>

fun normalize_segments :: "bool \<Rightarrow> string list \<Rightarrow> string list \<Rightarrow> string list" where
  "normalize_segments allowAbove stack [] = rev stack"
| "normalize_segments allowAbove stack (s # ss) =
     (if s = ''.'' then normalize_segments allowAbove stack ss
      else if s = ''..'' then
        (case stack of
           [] \<Rightarrow> normalize_segments allowAbove (if allowAbove then [''..''] else []) ss
         | t # ts \<Rightarrow>
             if t = ''..'' then normalize_segments allowAbove (''..'' # stack) ss
             else normalize_segments allowAbove ts ss)
      else normalize_segments allowAbove (s # stack) ss)"

fun join_segments :: "string list \<Rightarrow> string" where
  "join_segments [] = []"
| "join_segments [s] = s"
| "join_segments (s # t # ss) = s @ ''/'' @ join_segments (t # ss)"

definition isAbsolute :: "string \<Rightarrow> bool" where
  "isAbsolute p = (case p of [] \<Rightarrow> False | c # _ \<Rightarrow> c = CHR ''/'')"

definition trailingSeparator :: "string \<Rightarrow> bool" where
  "trailingSeparator p = (p \<noteq> [] \<and> last p = CHR ''/'')"

definition posix_normalize :: "string \<Rightarrow> string" where
  "posix_normalize p =
     (if p = [] then ''.''
      else
        let q = join_segments (normalize_segments (\<not> isAbsolute p) [] (segments p)) in
        if q = [] then (if isAbsolute p then ''/'' else if trailingSeparator p then ''./'' else ''.'')
        else (if isAbsolute p then ''/'' else []) @ q @ (if trailingSeparator p then ''/'' else []))"

definition posix_join :: "string \<Rightarrow> string \<Rightarrow> string" where
  "posix_join a b =
     (if a = [] \<and> b = [] then ''.''
      else if a = [] then posix_normalize b
      else if b = [] then posix_normalize a
      else posix_normalize (a @ ''/'' @ b))"

text \<open>\<open>path.resolve(p)\<close> with the process working directory \<open>cwd\<close> (an absolute path).\<close>

definition posix_resolve :: "string \<Rightarrow> string \<Rightarrow> string" where
  "posix_resolve cwd p =
     (let full = (if isAbsolute p then p else cwd @ ''/'' @ p)
      in CHR ''/'' # join_segments (normalize_segments False [] (segments full)))"

fun drop_common :: "string list \<Rightarrow> string list \<Rightarrow> string list \<times> string list" where
  "drop_common (x # xs) (y # ys) = (if x = y then drop_common xs ys else (x # xs, y # ys))"
| "drop_common xs ys = (xs, ys)"

definition posix_relative :: "string \<Rightarrow> string \<Rightarrow> string \<Rightarrow> string" where
  "posix_relative cwd from to =
     (if from = to then []
      else
        let (f, t) = drop_common (segments (posix_resolve cwd from)) (segments (posix_resolve cwd to))
        in join_segments (map (\<lambda>_. ''..'') f @ t))"

text \<open>
  \<open>path.dirname\<close>: scanning from the end down to index 1, trailing slashes are
  skipped, then the last segment, and the path is cut at the slash before it.
\<close>

definition posix_dirname :: "string \<Rightarrow> string" where
  "posix_dirname p =
     (case p of
        [] \<Rightarrow> ''.''
      | c # rest \<Rightarrow>
          let hasRoot = (c = CHR ''/'');
              kept = dropWhile (\<lambda>x. x \<noteq> CHR ''/'') (dropWhile (\<lambda>x. x = CHR ''/'') (rev rest));
              cut = length kept
          in if kept = [] then (if hasRoot then ''/'' else ''.'')
             else if hasRoot \<and> cut = 1 then ''//''
             else take cut p)"

definition posix_basename :: "string \<Rightarrow> string" where
  "posix_basename p = rev (takeWhile (\<lambda>x. x \<noteq> CHR ''/'') (dropWhile (\<lambda>x. x = CHR ''/'') (rev p)))"

definition posix :: "string \<Rightarrow> pathlib" where
  "posix cwd =
     \<lparr> path_join = posix_join,
       path_relative = posix_relative cwd,
       path_dirname = posix_dirname,
       path_basename = posix_basename,
       path_resolve = posix_resolve cwd \<rparr>"

section \<open>The file system and the remote API\<close>

text \<open>
  What \<open>fs.readdirSync(dir, {withFileTypes: true})\<close> finds, read recursively:
  a directory read either throws or yields entries; an entry is a regular file
  (with the outcome of \<open>fs.statSync(fullPath).size\<close>), a directory (with the
  outcome of reading it), or anything else (a symbolic link, a socket, ...),
  for which both \<open>isDirectory()\<close> and \<open>isFile()\<close> are false.
\<close>

datatype entry =
    RegFile string "js_error + nat"
  | Directory string dir_read
  | Other string
and dir_read =
    Entries "entry list"
  | ReadError js_error

record stats =
  isDirectory :: bool
  stat_size :: nat

record get_request =
  get_url :: string
  get_authorization :: string
  get_path :: "string option"

record post_request =
  post_url :: string
  post_authorization :: string
  post_file :: "string \<times> string"
  post_path :: "string option"

text \<open>
  The host the action runs on. \<open>'w\<close> is the state of everything outside the
  process (the remote server, the clock); each HTTP call and each reading of the
  clock may change it.
\<close>

record 'w host =
  existsSync :: "string \<Rightarrow> bool"
  statSync :: "string \<Rightarrow> js_error + stats"
  readdirSync :: "string \<Rightarrow> dir_read"
  axios_get :: "get_request \<Rightarrow> 'w \<Rightarrow> (js_error + string) \<times> 'w"
  axios_post :: "post_request \<Rightarrow> 'w \<Rightarrow> (js_error + string) \<times> 'w"
  Date_now :: "'w \<Rightarrow> int \<times> 'w"

section \<open>The API client\<close>

text \<open>
  The lines the API client writes to the log (\<open>core.info\<close>, \<open>core.warning\<close>,
  \<open>core.error\<close>) have no influence on what its functions return or throw and
  are left out; a \<open>catch\<close> that logs and throws the same error again passes
  the error on.
\<close>

record file_record =
  localPath :: string
  relativePath :: string
  name :: string
  size_bytes :: nat

text \<open>\<open>s.replace(/\\/g, '/')\<close>: every backslash (character 92) becomes a slash.\<close>

definition replace_backslashes :: "string \<Rightarrow> string" where
  "replace_backslashes s = map (\<lambda>c. if c = CHR 0x5C then CHR ''/'' else c) s"

text \<open>
  \<open>getAllFiles(dirPath, basePath)\<close>; the last argument is what
  \<open>readdirSync(dirPath)\<close> finds. \<open>walk_items\<close> is the \<open>for\<close> loop over the
  items, with the array \<open>files\<close> built so far. An error thrown inside the
  \<open>try\<close> is logged and thrown again.
\<close>

fun getAllFiles :: "pathlib \<Rightarrow> string \<Rightarrow> string \<Rightarrow> dir_read \<Rightarrow> js_error + file_record list"
and walk_items :: "pathlib \<Rightarrow> string \<Rightarrow> string \<Rightarrow> entry list \<Rightarrow> file_record list
                    \<Rightarrow> js_error + file_record list" where
  "getAllFiles P dirPath basePath (ReadError e) = Inl e"
| "getAllFiles P dirPath basePath (Entries items) = walk_items P dirPath basePath items []"
| "walk_items P dirPath basePath [] files = Inr files"
| "walk_items P dirPath basePath (Directory n d # items) files =
     (let fullPath = path_join P dirPath n in
      case getAllFiles P fullPath basePath d of
        Inl e \<Rightarrow> Inl e
      | Inr sub \<Rightarrow> walk_items P dirPath basePath items (files @ sub))"
| "walk_items P dirPath basePath (RegFile n st # items) files =
     (let fullPath = path_join P dirPath n;
          relPath = path_relative P basePath fullPath in
      case st of
        Inl e \<Rightarrow> Inl e
      | Inr sz \<Rightarrow>
          walk_items P dirPath basePath items
            (files @ [\<lparr> localPath = fullPath,
                        relativePath = replace_backslashes relPath,
                        name = n,
                        size_bytes = sz \<rparr>]))"
| "walk_items P dirPath basePath (Other n # items) files =
     walk_items P dirPath basePath items files"

text \<open>
  \<open>uploadFile({apiToken, siteId, apiBaseUrl, filePath, uploadPath})\<close>. The
  parameter \<open>uploadPath\<close> has the default \<open>''\<close> when the caller omits it;
  \<open>if (uploadPath)\<close> holds for a non-empty string. Every error thrown inside
  the \<open>try\<close> is logged and thrown again.
\<close>

definition uploadFile ::
  "'w host \<Rightarrow> pathlib \<Rightarrow> string \<Rightarrow> string \<Rightarrow> string \<Rightarrow> string \<Rightarrow> string \<Rightarrow> 'w
     \<Rightarrow> (js_error + string) \<times> 'w" where
  "uploadFile H P apiToken siteId apiBaseUrl filePath uploadPath w =
     (let url = apiBaseUrl @ ''/sites/'' @ siteId @ ''/files?path='' @ uploadPath in
      if \<not> existsSync H filePath then (Inl (new_Error (''file does not exist: '' @ filePath)), w)
      else
        let fileName = path_basename P filePath in
        case statSync H filePath of
          Inl e \<Rightarrow> (Inl e, w)
        | Inr fileStats \<Rightarrow>
            axios_post H
              \<lparr> post_url = url,
                post_authorization = ''Bearer '' @ apiToken,
                post_file = (filePath, fileName),
                post_path = (if uploadPath \<noteq> [] then Some uploadPath else None) \<rparr> w)"

record upload_result =
  total :: nat
  success :: nat
  failed :: nat
  errors :: "(string \<times> string) list"

text \<open>
  The \<open>for\<close> loop of \<open>uploadDirectory\<close> over the files, with the object
  \<open>results\<close> it updates. The \<open>try\<close> inside the loop catches whatever
  \<open>uploadFile\<close> throws.
\<close>

fun upload_loop ::
  "'w host \<Rightarrow> pathlib \<Rightarrow> string \<Rightarrow> string \<Rightarrow> string \<Rightarrow> file_record list \<Rightarrow> upload_result \<Rightarrow> 'w
     \<Rightarrow> upload_result \<times> 'w" where
  "upload_loop H P apiToken siteId apiBaseUrl [] results w = (results, w)"
| "upload_loop H P apiToken siteId apiBaseUrl (file # files) results w =
     (let uploadPath = path_dirname P (relativePath file) in
      case uploadFile H P apiToken siteId apiBaseUrl (localPath file) uploadPath w of
        (Inr _, w') \<Rightarrow>
          upload_loop H P apiToken siteId apiBaseUrl files
            (results\<lparr>success := success results + 1\<rparr>) w'
      | (Inl error, w') \<Rightarrow>
          upload_loop H P apiToken siteId apiBaseUrl files
            (results\<lparr>failed := failed results + 1,
                      errors := errors results @ [(relativePath file, message error)]\<rparr>) w')"

definition uploadDirectory ::
  "'w host \<Rightarrow> pathlib \<Rightarrow> string \<Rightarrow> string \<Rightarrow> string \<Rightarrow> string \<Rightarrow> 'w
     \<Rightarrow> (js_error + upload_result) \<times> 'w" where
  "uploadDirectory H P apiToken siteId apiBaseUrl sourceDir w =
     (case getAllFiles P sourceDir sourceDir (readdirSync H sourceDir) of
        Inl e \<Rightarrow> (Inl e, w)
      | Inr files \<Rightarrow>
          (case upload_loop H P apiToken siteId apiBaseUrl files
                  \<lparr> total = length files, success = 0, failed = 0, errors = [] \<rparr> w of
             (results, w') \<Rightarrow> (Inr results, w')))"

text \<open>
  \<open>listFiles({apiToken, siteId, apiBaseUrl, path})\<close>; \<open>None\<close> is an omitted
  \<open>path\<close>, which takes the default \<open>''\<close>, so that the query always carries
  a \<open>path\<close> parameter.
\<close>

definition listFiles ::
  "'w host \<Rightarrow> string \<Rightarrow> string \<Rightarrow> string \<Rightarrow> string option \<Rightarrow> 'w \<Rightarrow> (js_error + string) \<times> 'w" where
  "listFiles H apiToken siteId apiBaseUrl path w =
     (let dirPath = (case path of None \<Rightarrow> [] | Some p \<Rightarrow> p);
          url = apiBaseUrl @ ''/sites/'' @ siteId @ ''/files''
      in axios_get H
           \<lparr> get_url = url,
             get_authorization = ''Bearer '' @ apiToken,
             get_path = Some dirPath \<rparr> w)"

definition validateApiAccess ::
  "'w host \<Rightarrow> string \<Rightarrow> string \<Rightarrow> string \<Rightarrow> 'w \<Rightarrow> (js_error + bool) \<times> 'w" where
  "validateApiAccess H apiToken siteId apiBaseUrl w =
     (case listFiles H apiToken siteId apiBaseUrl None w of
        (Inr _, w') \<Rightarrow> (Inr True, w')
      | (Inl error, w') \<Rightarrow>
          (case response error of
             Some status \<Rightarrow>
               if status = 401 then (Inl (new_Error ''API Token invalid or expired''), w')
               else if status = 403 then
                 (Inl (new_Error ''API Token lacks permission, website_hosting permission required''), w')
               else if status = 404 then (Inl (new_Error (''site ID does not exist: '' @ siteId)), w')
               else (Inl error, w')
           | None \<Rightarrow> (Inl error, w')))"

section \<open>The context loader\<close>

text \<open>
  The object \<open>getRequiredVars\<close> returns is a list of properties in insertion
  order, which is the order \<open>for ... in\<close> visits them. \<open>core.getInput\<close> of
  the actions toolkit and \<open>process.env\<close> are taken from the runner.
\<close>

datatype js_value = Undefined | Str string | Num int

record runner =
  core_getInput :: "string \<Rightarrow> bool \<Rightarrow> js_error + string"
  process_env :: "string \<Rightarrow> string option"

definition env_value :: "runner \<Rightarrow> string \<Rightarrow> js_value" where
  "env_value R k = (case process_env R k of None \<Rightarrow> Undefined | Some v \<Rightarrow> Str v)"

definition getRequiredVars :: "runner \<Rightarrow> js_error + (string \<times> js_value) list" where
  "getRequiredVars R =
     (case core_getInput R ''api_token'' True of
        Inl e \<Rightarrow> Inl e
      | Inr apiToken \<Rightarrow>
     (case core_getInput R ''site_id'' True of
        Inl e \<Rightarrow> Inl e
      | Inr siteId \<Rightarrow>
     (case core_getInput R ''api_base_url'' False of
        Inl e \<Rightarrow> Inl e
      | Inr baseInput \<Rightarrow>
     (case core_getInput R ''source_dir'' False of
        Inl e \<Rightarrow> Inl e
      | Inr dirInput \<Rightarrow>
          Inr [(''apiToken'', Str apiToken),
               (''siteId'', Str siteId),
               (''apiBaseUrl'', Str (if baseInput \<noteq> [] then baseInput else ''https://api.example.com'')),
               (''sourceDir'', Str (if dirInput \<noteq> [] then dirInput else ''./dist'')),
               (''targetPath'', Str ''/''),
               (''timeout'', Num 600000),
               (''maxRetries'', Num 3),
               (''workflowRun'', env_value R ''GITHUB_RUN_ID''),
               (''repositoryNwo'', env_value R ''GITHUB_REPOSITORY''),
               (''buildVersion'', env_value R ''GITHUB_SHA'')]))))"

text \<open>The loop of \<open>getContext\<close>: the first undefined property throws.\<close>

fun check_variables :: "(string \<times> js_value) list \<Rightarrow> js_error + unit" where
  "check_variables [] = Inr ()"
| "check_variables ((variable, v) # rest) =
     (if v = Undefined then Inl (new_Error (variable @ '' is undefined. Cannot continue.''))
      else check_variables rest)"

definition getContext :: "runner \<Rightarrow> js_error + (string \<times> js_value) list" where
  "getContext R =
     (case getRequiredVars R of
        Inl e \<Rightarrow> Inl e
      | Inr requiredVars \<Rightarrow>
          (case check_variables requiredVars of
             Inl e \<Rightarrow> Inl e
           | Inr _ \<Rightarrow> Inr requiredVars))"

section \<open>The upload orchestrator\<close>

datatype uploadStatus = Pending | Uploading | Success | Failed | Cancelled

text \<open>The texts the object \<open>uploadStatus\<close> maps the five keys to.\<close>

fun status_text :: "uploadStatus \<Rightarrow> string" where
  "status_text Pending = ''waiting for upload''"
| "status_text Uploading = ''uploading''"
| "status_text Success = ''upload succeeded''"
| "status_text Failed = ''upload failed''"
| "status_text Cancelled = ''upload cancelled''"

definition MAX_TIMEOUT :: int where
  "MAX_TIMEOUT = 600000"

text \<open>
  \<open>uploadInfo\<close>: the upload result spread into a new object, with the id and
  the two times; \<open>cancelled\<close> is the property \<open>cancel\<close> adds (absent, hence
  false, before).
\<close>

record upload_info = upload_result +
  info_id :: string
  info_startTime :: "int option"
  endTime :: int
  cancelled :: bool

record uploader =
  apiToken :: string
  siteId :: string
  apiBaseUrl :: string
  sourceDir :: string
  timeout :: int
  maxRetries :: int
  repositoryNwo :: string
  buildVersion :: string
  buildActor :: "string option"
  workflowRun :: string
  uploadInfo :: "upload_info option"
  startTime :: "int option"
  status :: uploadStatus

text \<open>
  Reading a property of the context object. \<open>text_of\<close> is the string a property
  holds, \<open>number_or v d\<close> is \<open>v || d\<close> for a property that holds a number or
  is missing.
\<close>

definition get_property :: "(string \<times> js_value) list \<Rightarrow> string \<Rightarrow> js_value" where
  "get_property obj k = (case map_of obj k of None \<Rightarrow> Undefined | Some v \<Rightarrow> v)"

fun text_of :: "js_value \<Rightarrow> string" where
  "text_of (Str s) = s"
| "text_of (Num n) = toString n"
| "text_of Undefined = ''undefined''"

fun number_or :: "js_value \<Rightarrow> int \<Rightarrow> int" where
  "number_or (Num n) d = (if n \<noteq> 0 then n else d)"
| "number_or _ d = d"

text \<open>The constructor: it loads the context itself and starts in \<open>pending\<close>.\<close>

definition FileUploader :: "runner \<Rightarrow> js_error + uploader" where
  "FileUploader R =
     (case getContext R of
        Inl e \<Rightarrow> Inl e
      | Inr ctx \<Rightarrow>
          Inr \<lparr> apiToken = text_of (get_property ctx ''apiToken''),
                siteId = text_of (get_property ctx ''siteId''),
                apiBaseUrl = text_of (get_property ctx ''apiBaseUrl''),
                sourceDir = text_of (get_property ctx ''sourceDir''),
                timeout = number_or (get_property ctx ''timeout'') MAX_TIMEOUT,
                maxRetries = number_or (get_property ctx ''maxRetries'') 3,
                repositoryNwo = text_of (get_property ctx ''repositoryNwo''),
                buildVersion = text_of (get_property ctx ''buildVersion''),
                buildActor = None,
                workflowRun = text_of (get_property ctx ''workflowRun''),
                uploadInfo = None,
                startTime = None,
                status = Pending \<rparr>)"

definition validateConfig :: "uploader \<Rightarrow> js_error + unit" where
  "validateConfig this =
     (if apiToken this = [] then Inl (new_Error ''API Token not configured, set the api_token input or the API_TOKEN variable'')
      else if siteId this = [] then Inl (new_Error ''site ID not configured, set the site_id input or the SITE_ID variable'')
      else if apiBaseUrl this = [] then Inl (new_Error ''API base URL not configured, set the api_base_url input or the API_BASE_URL variable'')
      else Inr ())"

text \<open>
  The \<open>try\<close> block of \<open>create\<close>. It returns what it throws or returns, the
  object as it has been updated up to that point, and the outside state.
\<close>

definition create_try ::
  "'w host \<Rightarrow> pathlib \<Rightarrow> uploader \<Rightarrow> 'w \<Rightarrow> (js_error + upload_info) \<times> uploader \<times> 'w" where
  "create_try H P this w =
     (case validateConfig this of
        Inl e \<Rightarrow> (Inl e, this, w)
      | Inr _ \<Rightarrow>
     (let resolvedSourceDir = path_resolve P (sourceDir this) in
      if \<not> existsSync H resolvedSourceDir then
        (Inl (new_Error (''source directory does not exist: '' @ resolvedSourceDir)), this, w)
      else
     (case statSync H resolvedSourceDir of
        Inl e \<Rightarrow> (Inl e, this, w)
      | Inr st \<Rightarrow>
      if \<not> isDirectory st then
        (Inl (new_Error (''source path is not a directory: '' @ resolvedSourceDir)), this, w)
      else
     (case validateApiAccess H (apiToken this) (siteId this) (apiBaseUrl this) w of
        (Inl e, w1) \<Rightarrow> (Inl e, this, w1)
      | (Inr _, w1) \<Rightarrow>
     (case Date_now H w1 of (t0, w2) \<Rightarrow>
      let this1 = this\<lparr>status := Uploading, startTime := Some t0\<rparr> in
     (case uploadDirectory H P (apiToken this1) (siteId this1) (apiBaseUrl this1) resolvedSourceDir w2 of
        (Inl e, w3) \<Rightarrow> (Inl e, this1, w3)
      | (Inr uploadResult, w3) \<Rightarrow>
     (case (if buildVersion this1 \<noteq> [] then (buildVersion this1, w3)
            else (case Date_now H w3 of (t, w') \<Rightarrow> (toString t, w'))) of (idv, w4) \<Rightarrow>
     (case Date_now H w4 of (t1, w5) \<Rightarrow>
      let info = \<lparr> total = total uploadResult,
                   success = success uploadResult,
                   failed = failed uploadResult,
                   errors = errors uploadResult,
                   info_id = idv,
                   info_startTime = startTime this1,
                   endTime = t1,
                   cancelled = False \<rparr>;
          this2 = this1\<lparr>uploadInfo := Some info\<rparr>;
          this3 = (if failed uploadResult = 0 then this2\<lparr>status := Success\<rparr>
                   else this2\<lparr>status := Failed\<rparr>)
      in (Inr info, this3, w5)))))))))"

text \<open>The message \<open>create\<close> builds for an error that carries an HTTP response.\<close>

definition errorMessage :: "uploader \<Rightarrow> js_error \<Rightarrow> int \<Rightarrow> string" where
  "errorMessage this error st =
     ''file upload failed (status code: '' @ toString st @ '')'' @
     (if st = 400 then '' error details: '' @ message error
      else if st = 401 then '' API Token invalid or expired''
      else if st = 403 then '' API Token lacks permission, website_hosting permission required''
      else if st = 404 then '' site ID does not exist: '' @ siteId this
      else if st \<ge> 500 then '' server error, try again later''
      else [])"

definition create ::
  "'w host \<Rightarrow> pathlib \<Rightarrow> uploader \<Rightarrow> 'w \<Rightarrow> (js_error + upload_info) \<times> uploader \<times> 'w" where
  "create H P this0 w =
     (let this = (if timeout this0 > MAX_TIMEOUT then this0\<lparr>timeout := MAX_TIMEOUT\<rparr> else this0) in
      case create_try H P this w of
        (Inr info, this', w') \<Rightarrow> (Inr info, this', w')
      | (Inl error, this', w') \<Rightarrow>
          (let this'' = this'\<lparr>status := Failed\<rparr> in
           case response error of
             Some st \<Rightarrow> (Inl (new_Error (errorMessage this'' error st)), this'', w')
           | None \<Rightarrow> (Inl error, this'', w')))"

text \<open>
  What \<open>check\<close> emits through the actions toolkit, in order: log lines at
  level info and warning, \<open>core.setFailed\<close> and \<open>core.setOutput\<close>. The
  result serialised by \<open>JSON.stringify\<close> is kept as the object itself. Nothing
  inside the \<open>try\<close> of \<open>check\<close> can throw, so its \<open>catch\<close> has no branch
  here.
\<close>

datatype output_value = Text string | Json upload_info

datatype event =
    Info string
  | Warning string
  | SetFailed string
  | SetOutput string output_value

definition check_success :: "upload_info \<Rightarrow> event list" where
  "check_success info =
     [Info ''file upload succeeded!'',
      SetOutput ''status'' (Text ''success''),
      SetOutput ''upload_result'' (Json info),
      SetOutput ''total_files'' (Text (toString (int (total info)))),
      SetOutput ''success_files'' (Text (toString (int (success info)))),
      SetOutput ''failed_files'' (Text (toString (int (failed info))))] @
     (if failed info > 0 then
        [Warning (''some files failed to upload: '' @ toString (int (failed info)) @ ''/''
                  @ toString (int (total info)))] @
        (if errors info \<noteq> [] then
           [Warning ''failed files:''] @
           map (\<lambda>(file, error). Warning (''  - '' @ file @ '': '' @ error)) (errors info)
         else [])
      else [])"

text \<open>\<open>Math.round(duration / 1000)\<close> on integers: halves round upwards.\<close>

definition round_seconds :: "int \<Rightarrow> int" where
  "round_seconds duration = (duration + 500) div 1000"

definition check_duration :: "uploader \<Rightarrow> upload_info \<Rightarrow> event list" where
  "check_duration this info =
     (case startTime this of
        Some t0 \<Rightarrow>
          if t0 \<noteq> 0 \<and> endTime info \<noteq> 0 then
            (let duration = endTime info - t0 in
             [Info (''upload took: '' @ toString (round_seconds duration) @ '' seconds''),
              SetOutput ''duration'' (Text (toString duration))])
          else []
      | None \<Rightarrow> [])"

definition check :: "uploader \<Rightarrow> event list" where
  "check this =
     (case uploadInfo this of
        None \<Rightarrow> [SetFailed ''upload not started or upload info lost'']
      | Some info \<Rightarrow>
          [Info ''checking upload status...''] @
          (case status this of
             Success \<Rightarrow> check_success info
           | Failed \<Rightarrow> [SetFailed ''file upload failed'', SetOutput ''status'' (Text ''failed'')]
           | Cancelled \<Rightarrow> [SetFailed ''file upload cancelled'', SetOutput ''status'' (Text ''cancelled'')]
           | _ \<Rightarrow> [Info (''current status: '' @ status_text (status this)),
                   SetOutput ''status'' (Text (status_text (status this)))]) @
          check_duration this info)"

definition cancel :: "'w host \<Rightarrow> uploader \<Rightarrow> 'w \<Rightarrow> uploader \<times> 'w" where
  "cancel H this w =
     (if uploadInfo this = None \<or> status this = Success \<or> status this = Failed then (this, w)
      else
        let this1 = this\<lparr>status := Cancelled\<rparr> in
        case uploadInfo this1 of
          Some info \<Rightarrow>
            (case Date_now H w of (t, w') \<Rightarrow>
               (this1\<lparr>uploadInfo := Some (info\<lparr>cancelled := True, endTime := t\<rparr>)\<rparr>, w'))
        | None \<Rightarrow> (this1, w))"

section \<open>Specifications of the walk and of the batch\<close>

text \<open>
  The regular files of a directory tree, at every depth, in the order of the
  walk: each with the names leading to it from the root of the tree and with
  the outcome of reading its size. Directories and other entries are not listed.
\<close>

fun regular_files :: "dir_read \<Rightarrow> (string list \<times> (js_error + nat)) list"
and regular_files_entries :: "entry list \<Rightarrow> (string list \<times> (js_error + nat)) list" where
  "regular_files (ReadError e) = []"
| "regular_files (Entries items) = regular_files_entries items"
| "regular_files_entries [] = []"
| "regular_files_entries (RegFile n st # items) = ([n], st) # regular_files_entries items"
| "regular_files_entries (Directory n d # items) =
     map (\<lambda>(p, st). (n # p, st)) (regular_files d) @ regular_files_entries items"
| "regular_files_entries (Other n # items) = regular_files_entries items"

text \<open>
  The walk meets no failure: every directory of the tree can be read and the
  size of every regular file can be read.
\<close>

fun walk_ok :: "dir_read \<Rightarrow> bool"
and walk_ok_entries :: "entry list \<Rightarrow> bool" where
  "walk_ok (ReadError e) = False"
| "walk_ok (Entries items) = walk_ok_entries items"
| "walk_ok_entries [] = True"
| "walk_ok_entries (RegFile n st # items) = (\<not> isl st \<and> walk_ok_entries items)"
| "walk_ok_entries (Directory n d # items) = (walk_ok d \<and> walk_ok_entries items)"
| "walk_ok_entries (Other n # items) = walk_ok_entries items"

text \<open>
  The errors a walk of the tree can meet.
\<close>

fun tree_errors :: "dir_read \<Rightarrow> js_error set"
and tree_errors_entries :: "entry list \<Rightarrow> js_error set" where
  "tree_errors (ReadError e) = {e}"
| "tree_errors (Entries items) = tree_errors_entries items"
| "tree_errors_entries [] = {}"
| "tree_errors_entries (RegFile n st # items) =
     (case st of Inl e \<Rightarrow> {e} | Inr _ \<Rightarrow> {}) \<union> tree_errors_entries items"
| "tree_errors_entries (Directory n d # items) = tree_errors d \<union> tree_errors_entries items"
| "tree_errors_entries (Other n # items) = tree_errors_entries items"

text \<open>
  No directory of the tree holds two entries of the same name.
\<close>

fun entry_name :: "entry \<Rightarrow> string" where
  "entry_name (RegFile n st) = n"
| "entry_name (Directory n d) = n"
| "entry_name (Other n) = n"

fun distinct_names :: "dir_read \<Rightarrow> bool"
and distinct_names_entries :: "entry list \<Rightarrow> bool" where
  "distinct_names (ReadError e) = True"
| "distinct_names (Entries items) = (distinct (map entry_name items) \<and> distinct_names_entries items)"
| "distinct_names_entries [] = True"
| "distinct_names_entries (RegFile n st # items) = distinct_names_entries items"
| "distinct_names_entries (Directory n d # items) = (distinct_names d \<and> distinct_names_entries items)"
| "distinct_names_entries (Other n # items) = distinct_names_entries items"

text \<open>
  The four fields of a record, and the fields the record of a regular file is
  expected to have: the file's names joined one by one onto the directory the
  walk started from, the relative path of that from the base with backslashes
  replaced, the file's own name, and its size.
\<close>

definition describe :: "file_record \<Rightarrow> string \<times> string \<times> string \<times> (js_error + nat)" where
  "describe r = (localPath r, relativePath r, name r, Inr (size_bytes r))"

definition expected :: "pathlib \<Rightarrow> string \<Rightarrow> string \<Rightarrow> string list \<times> (js_error + nat)
   \<Rightarrow> string \<times> string \<times> string \<times> (js_error + nat)" where
  "expected P dirPath basePath f =
     (let fullPath = foldl (path_join P) dirPath (fst f)
      in (fullPath, replace_backslashes (path_relative P basePath fullPath), last (fst f), snd f))"

text \<open>
  Calling \<open>uploadFile\<close> once for every file of the list, in order, whatever
  the earlier calls returned: the outcomes of the calls and the outside state
  after the last one. \<open>failure_entries\<close> lists, for the calls that threw,
  the file's relative path and the message of the error.
\<close>

fun upload_each ::
  "'w host \<Rightarrow> pathlib \<Rightarrow> string \<Rightarrow> string \<Rightarrow> string \<Rightarrow> file_record list \<Rightarrow> 'w
     \<Rightarrow> (js_error + string) list \<times> 'w" where
  "upload_each H P tok site base [] w = ([], w)"
| "upload_each H P tok site base (file # files) w =
     (case uploadFile H P tok site base (localPath file)
             (path_dirname P (relativePath file)) w of
        (r, w') \<Rightarrow>
          (case upload_each H P tok site base files w' of
             (rs, w'') \<Rightarrow> (r # rs, w'')))"

fun failure_entries :: "file_record list \<Rightarrow> (js_error + string) list \<Rightarrow> (string \<times> string) list" where
  "failure_entries (file # files) (Inl error # outcomes) =
     (relativePath file, message error) # failure_entries files outcomes"
| "failure_entries (file # files) (Inr _ # outcomes) = failure_entries files outcomes"
| "failure_entries _ _ = []"

section \<open>A site of two files\<close>

text \<open>
  The source directory \<open>/work/dist\<close> holds \<open>index.html\<close> (10 bytes) and
  \<open>css/style.css\<close> (20 bytes). The outside state is the list of the upload
  requests the server has received and the clock, which advances by a second
  each time it is read. The server answers every listing; it rejects with
  status 500 the uploads of the files whose names are \<open>rejected\<close>.
\<close>

definition site_tree :: dir_read where
  "site_tree =
     Entries [RegFile ''index.html'' (Inr 10),
              Directory ''css'' (Entries [RegFile ''style.css'' (Inr 20)])]"

type_synonym world = "post_request list \<times> int"

definition scenario_host :: "(string \<Rightarrow> bool) \<Rightarrow> world host" where
  "scenario_host rejected =
     \<lparr> existsSync = (\<lambda>p. True),
       statSync = (\<lambda>p. Inr \<lparr> isDirectory = (p = ''/work/dist''), stat_size = 0 \<rparr>),
       readdirSync = (\<lambda>p. if p = ''/work/dist'' then site_tree
                          else ReadError (JsError ''ENOENT: no such file or directory'' None)),
       axios_get = (\<lambda>r w. (Inr ''[]'', w)),
       axios_post = (\<lambda>r w.
          (if rejected (snd (post_file r))
           then Inl (JsError ''Request failed with status code 500'' (Some 500))
           else Inr ''ok'', (fst w @ [r], snd w))),
       Date_now = (\<lambda>w. (snd w, (fst w, snd w + 1000))) \<rparr>"

definition accepting_host :: "world host" where
  "accepting_host = scenario_host (\<lambda>n. False)"

definition rejecting_host :: "world host" where
  "rejecting_host = scenario_host (\<lambda>n. n = ''style.css'')"

definition rejecting_first_host :: "world host" where
  "rejecting_first_host = scenario_host (\<lambda>n. n = ''index.html'')"

definition unauthorized_host :: "world host" where
  "unauthorized_host =
     accepting_host\<lparr>axios_get := (\<lambda>r w. (Inl (JsError ''Request failed with status code 401'' (Some 401)), w))\<rparr>"

text \<open>
  A tree with a directory that cannot be read.
\<close>

definition unreadable_tree :: dir_read where
  "unreadable_tree =
     Entries [RegFile ''index.html'' (Inr 10),
              Directory ''private'' (ReadError (JsError ''EACCES: permission denied, scandir'' None)),
              RegFile ''late.txt'' (Inr 5)]"

text \<open>
  The runner supplies the two required inputs and the three environment
  variables; \<open>bare_runner\<close> supplies the inputs only. \<open>scenario_uploader\<close>
  is the object the constructor builds on \<open>scenario_runner\<close>.
\<close>

definition scenario_runner :: runner where
  "scenario_runner =
     \<lparr> core_getInput = (\<lambda>n required.
          if n = ''api_token'' then Inr ''secret''
          else if n = ''site_id'' then Inr ''site1''
          else Inr []),
       process_env = (\<lambda>k.
          if k = ''GITHUB_RUN_ID'' then Some ''42''
          else if k = ''GITHUB_REPOSITORY'' then Some ''owner/repo''
          else if k = ''GITHUB_SHA'' then Some ''abc123''
          else None) \<rparr>"

definition bare_runner :: runner where
  "bare_runner = scenario_runner\<lparr>process_env := (\<lambda>k. None)\<rparr>"

definition scenario_uploader :: uploader where
  "scenario_uploader =
     \<lparr> apiToken = ''secret'', siteId = ''site1'',
       apiBaseUrl = ''https://api.example.com'', sourceDir = ''./dist'',
       timeout = 600000, maxRetries = 3, repositoryNwo = ''owner/repo'',
       buildVersion = ''abc123'', buildActor = None, workflowRun = ''42'',
       uploadInfo = None, startTime = None, status = Pending \<rparr>"

text \<open>
  The records of the two files, the two upload requests the server receives,
  and the upload information after a run without failure and after a run in
  which the upload of \<open>css/style.css\<close> is rejected.
\<close>

definition index_record :: file_record where
  "index_record =
     \<lparr>localPath = ''/work/dist/index.html'', relativePath = ''index.html'',
      name = ''index.html'', size_bytes = 10\<rparr>"

definition style_record :: file_record where
  "style_record =
     \<lparr>localPath = ''/work/dist/css/style.css'', relativePath = ''css/style.css'',
      name = ''style.css'', size_bytes = 20\<rparr>"

definition index_request :: post_request where
  "index_request =
     \<lparr>post_url = ''https://api.example.com/sites/site1/files?path=.'',
      post_authorization = ''Bearer secret'',
      post_file = (''/work/dist/index.html'', ''index.html''),
      post_path = Some ''.''\<rparr>"

definition style_request :: post_request where
  "style_request =
     \<lparr>post_url = ''https://api.example.com/sites/site1/files?path=css'',
      post_authorization = ''Bearer secret'',
      post_file = (''/work/dist/css/style.css'', ''style.css''),
      post_path = Some ''css''\<rparr>"

definition full_info :: upload_info where
  "full_info =
     \<lparr>total = 2, success = 2, failed = 0, errors = [],
      info_id = ''abc123'', info_startTime = Some 5000, endTime = 6000,
      cancelled = False\<rparr>"

definition partial_info :: upload_info where
  "partial_info =
     \<lparr>total = 2, success = 1, failed = 1,
      errors = [(''css/style.css'', ''Request failed with status code 500'')],
      info_id = ''abc123'', info_startTime = Some 5000, endTime = 6000,
      cancelled = False\<rparr>"

text \<open>
  The orchestrator in the middle of an upload with an upload record, and the
  same after a cancellation at time 9000.
\<close>

definition midway_uploader :: uploader where
  "midway_uploader = scenario_uploader\<lparr>uploadInfo := Some full_info, status := Uploading\<rparr>"

definition cancelled_uploader :: uploader where
  "cancelled_uploader =
     scenario_uploader\<lparr>uploadInfo := Some (full_info\<lparr>endTime := 9000, cancelled := True\<rparr>),
                       status := Cancelled\<rparr>"

text \<open>
  A host whose path separator is the backslash: joined and relative paths are
  written with it.
\<close>

definition windows_dist :: string where
  "windows_dist = ''C:'' @ [CHR 0x5C] @ ''dist''"

definition backslash_paths :: pathlib where
  "backslash_paths =
     \<lparr> path_join = (\<lambda>a b. a @ [CHR 0x5C] @ b),
       path_relative = (\<lambda>from to. drop (length from + 1) to),
       path_dirname = posix_dirname,
       path_basename = (\<lambda>p. rev (takeWhile (\<lambda>x. x \<noteq> CHR 0x5C) (rev p))),
       path_resolve = (\<lambda>p. p) \<rparr>"

section \<open>The directory walk\<close>

lemma regular_files_nonempty:
  "\<forall>f \<in> set (regular_files d). fst f \<noteq> []"
  "\<forall>f \<in> set (regular_files_entries items). fst f \<noteq> []"
  by (induction d and items rule: regular_files_regular_files_entries.induct) auto

lemma walk_complete:
  "walk_ok d \<Longrightarrow> \<exists>rs. getAllFiles P dp bp d = Inr rs \<and>
       map describe rs = map (expected P dp bp) (regular_files d)"
  "walk_ok_entries items \<Longrightarrow> \<exists>rs. walk_items P dp bp items files = Inr (files @ rs) \<and>
       map describe rs = map (expected P dp bp) (regular_files_entries items)"
proof (induction P dp bp d and P dp bp items files rule: getAllFiles_walk_items.induct)
  case (4 P dirPath basePath n d items files)
  from 4 have okd: "walk_ok d" and oki: "walk_ok_entries items" by simp_all
  let ?full = "path_join P dirPath n"
  from 4(1)[OF refl okd] obtain sub where
    sub: "getAllFiles P ?full basePath d = Inr sub"
         "map describe sub = map (expected P ?full basePath) (regular_files d)" by blast
  from 4(2)[OF refl sub(1) oki] obtain rs where
    rs: "walk_items P dirPath basePath items (files @ sub) = Inr ((files @ sub) @ rs)"
        "map describe rs = map (expected P dirPath basePath) (regular_files_entries items)" by blast
  have "map (expected P dirPath basePath) (map (\<lambda>(p, st). (n # p, st)) (regular_files d))
        = map (expected P ?full basePath) (regular_files d)"
    using regular_files_nonempty(1)[of d] by (auto simp: expected_def Let_def)
  with sub rs show ?case by (auto simp: Let_def)
next
  case (5 P dirPath basePath n st items files)
  from 5 obtain sz where st: "st = Inr sz" and oki: "walk_ok_entries items"
    by (cases st) auto
  let ?r = "\<lparr> localPath = path_join P dirPath n,
              relativePath = replace_backslashes (path_relative P basePath (path_join P dirPath n)),
              name = n, size_bytes = sz \<rparr>"
  from 5(1)[OF refl refl st oki] obtain rs where
    rs: "walk_items P dirPath basePath items (files @ [?r]) = Inr ((files @ [?r]) @ rs)"
        "map describe rs = map (expected P dirPath basePath) (regular_files_entries items)" by blast
  have "describe ?r = expected P dirPath basePath ([n], st)"
    by (simp add: describe_def expected_def st Let_def)
  with rs st have "walk_items P dirPath basePath (RegFile n st # items) files = Inr (files @ (?r # rs))
     \<and> map describe (?r # rs) = map (expected P dirPath basePath) (regular_files_entries (RegFile n st # items))"
    by (simp add: Let_def)
  then show ?case by blast
qed auto

lemma walk_aborts:
  "\<not> walk_ok d \<Longrightarrow> \<exists>e \<in> tree_errors d. getAllFiles P dp bp d = Inl e"
  "\<not> walk_ok_entries items \<Longrightarrow> \<exists>e \<in> tree_errors_entries items. walk_items P dp bp items files = Inl e"
proof (induction P dp bp d and P dp bp items files rule: getAllFiles_walk_items.induct)
  case (4 P dirPath basePath n d items files)
  show ?case
  proof (cases "walk_ok d")
    case True
    with 4(3) have bad: "\<not> walk_ok_entries items" by simp
    from walk_complete(1)[OF True, of P "path_join P dirPath n" basePath] obtain sub where
      sub: "getAllFiles P (path_join P dirPath n) basePath d = Inr sub" by blast
    from 4(2)[OF refl sub bad] sub show ?thesis by (auto simp: Let_def)
  next
    case False
    with 4(1)[OF refl False] show ?thesis by (auto simp: Let_def)
  qed
next
  case (5 P dirPath basePath n st items files)
  then show ?case by (cases st) (auto simp: Let_def)
qed auto

lemma regular_files_hd:
  "f \<in> set (regular_files_entries items) \<Longrightarrow> fst f \<noteq> [] \<and> hd (fst f) \<in> entry_name ` set items"
proof (induction items)
  case (Cons a items)
  then show ?case by (cases a) auto
qed simp

lemma regular_files_distinct:
  "distinct_names d \<Longrightarrow> distinct (map fst (regular_files d))"
  "distinct (map entry_name items) \<Longrightarrow> distinct_names_entries items \<Longrightarrow>
     distinct (map fst (regular_files_entries items))"
proof (induction d and items rule: regular_files_regular_files_entries.induct)
  case (4 n st items)
  then show ?case using regular_files_hd[of _ items] by force
next
  case (5 n d items)
  have inj: "distinct (map fst (map (\<lambda>(p, st). (n # p, st)) (regular_files d)))"
    using 5 by (simp add: distinct_map inj_on_def comp_def case_prod_beta)
  have disj: "set (map fst (map (\<lambda>(p, st). (n # p, st)) (regular_files d)))
                \<inter> set (map fst (regular_files_entries items)) = {}"
    using 5(3) regular_files_hd[of _ items] by force
  from 5 have "distinct (map fst (regular_files_entries items))" by simp
  with inj disj have "distinct (map fst (map (\<lambda>(p, st). (n # p, st)) (regular_files d))
                                @ map fst (regular_files_entries items))"
    unfolding distinct_append by blast
  then show ?case by simp
qed auto

lemma no_backslash: "CHR 0x5C \<notin> set (replace_backslashes s)"
  by (auto simp: replace_backslashes_def)

lemma walk_forward_slashes:
  "getAllFiles P dp bp d = Inr rs \<Longrightarrow> \<forall>r \<in> set rs. CHR 0x5C \<notin> set (relativePath r)"
  "walk_items P dp bp items files = Inr rs \<Longrightarrow>
     \<forall>r \<in> set files. CHR 0x5C \<notin> set (relativePath r) \<Longrightarrow>
     \<forall>r \<in> set rs. CHR 0x5C \<notin> set (relativePath r)"
proof (induction P dp bp d and P dp bp items files arbitrary: rs and rs rule: getAllFiles_walk_items.induct)
  case (4 P dirPath basePath n d items files)
  from 4(3) obtain sub where
    sub: "getAllFiles P (path_join P dirPath n) basePath d = Inr sub"
    and rest: "walk_items P dirPath basePath items (files @ sub) = Inr rs"
    by (auto simp: Let_def split: sum.splits)
  from 4(1)[OF refl sub] 4(4) have "\<forall>r \<in> set (files @ sub). CHR 0x5C \<notin> set (relativePath r)"
    by auto
  with 4(2)[OF refl sub rest] show ?case by blast
next
  case (5 P dirPath basePath n st items files)
  from 5(2) obtain sz where st: "st = Inr sz" by (cases st) (auto simp: Let_def)
  let ?r = "\<lparr> localPath = path_join P dirPath n,
              relativePath = replace_backslashes (path_relative P basePath (path_join P dirPath n)),
              name = n, size_bytes = sz \<rparr>"
  from 5(2) st have rest: "walk_items P dirPath basePath items (files @ [?r]) = Inr rs"
    by (simp add: Let_def)
  have "\<forall>r \<in> set (files @ [?r]). CHR 0x5C \<notin> set (relativePath r)"
    using 5(3) no_backslash by auto
  with 5(1)[OF refl refl st rest] show ?case by blast
qed auto

text \<open>
  Claim C8. The walk of an empty directory returns the empty sequence. When
  every directory and every file size of the tree can be read, the walk returns
  one record for each regular file of the tree, at every depth, in order, and
  nothing else: no directory is an entry. Where no directory holds two entries
  of the same name, the files so listed are pairwise different, so that each
  appears exactly once. When a directory of the tree cannot be read (or a size
  cannot), the walk returns no records at all but one of the errors it met.
\<close>

theorem getAllFiles_enumerates:
  "getAllFiles P dirPath basePath (Entries []) = Inr []
   \<and> (walk_ok d \<longrightarrow>
        (\<exists>rs. getAllFiles P dirPath basePath d = Inr rs \<and>
              map describe rs = map (expected P dirPath basePath) (regular_files d)))
   \<and> (distinct_names d \<longrightarrow> distinct (map fst (regular_files d)))
   \<and> (\<not> walk_ok d' \<longrightarrow> (\<exists>e \<in> tree_errors d'. getAllFiles P dirPath basePath d' = Inl e))"
  using walk_complete(1)[of d P dirPath basePath] regular_files_distinct(1)[of d]
    walk_aborts(1)[of d' P dirPath basePath]
  by simp

theorem getAllFiles_enumerates_witness:
  "walk_ok site_tree \<and> distinct_names site_tree \<and> \<not> walk_ok unreadable_tree
   \<and> getAllFiles (posix ''/work'') ''/work/dist'' ''/work/dist'' (Entries []) = Inr []
   \<and> regular_files site_tree = [([''index.html''], Inr 10), ([''css'', ''style.css''], Inr 20)]
   \<and> getAllFiles (posix ''/work'') ''/work/dist'' ''/work/dist'' site_tree
       = Inr [index_record, style_record]
   \<and> map describe [index_record, style_record] =
       map (expected (posix ''/work'') ''/work/dist'' ''/work/dist'') (regular_files site_tree)
   \<and> distinct (map fst (regular_files site_tree))
   \<and> getAllFiles (posix ''/work'') ''/work/dist'' ''/work/dist'' unreadable_tree
       = Inl (JsError ''EACCES: permission denied, scandir'' None)"
proof -
  have h1: "walk_ok site_tree" by code_simp
  have h2: "distinct_names site_tree" by code_simp
  have h3: "\<not> walk_ok unreadable_tree" by code_simp
  have h4: "regular_files site_tree = [([''index.html''], Inr 10), ([''css'', ''style.css''], Inr 20)]"
    by code_simp
  have h5: "getAllFiles (posix ''/work'') ''/work/dist'' ''/work/dist'' site_tree
       = Inr [index_record, style_record]" by code_simp
  have h6: "getAllFiles (posix ''/work'') ''/work/dist'' ''/work/dist'' unreadable_tree
       = Inl (JsError ''EACCES: permission denied, scandir'' None)" by code_simp
  from getAllFiles_enumerates[of "posix ''/work''" "''/work/dist''" "''/work/dist''" site_tree unreadable_tree]
    h1 h2 h3 h4 h5 h6 show ?thesis by simp
qed

text \<open>
  Claim C9. Whatever the path functions of the host return, no relative path
  of a record the walk produces contains a backslash: every separator in it is
  a forward slash.
\<close>

theorem relativePath_forward_slashes:
  "getAllFiles P dirPath basePath d = Inr rs \<Longrightarrow> r \<in> set rs \<Longrightarrow> CHR 0x5C \<notin> set (relativePath r)"
  using walk_forward_slashes(1)[of P dirPath basePath d rs] by blast

theorem relativePath_forward_slashes_witness:
  "getAllFiles backslash_paths windows_dist windows_dist site_tree =
     Inr [\<lparr>localPath = windows_dist @ [CHR 0x5C] @ ''index.html'', relativePath = ''index.html'',
            name = ''index.html'', size_bytes = 10\<rparr>,
          \<lparr>localPath = windows_dist @ [CHR 0x5C] @ ''css'' @ [CHR 0x5C] @ ''style.css'',
            relativePath = ''css/style.css'', name = ''style.css'', size_bytes = 20\<rparr>]
   \<and> path_relative backslash_paths windows_dist
         (windows_dist @ [CHR 0x5C] @ ''css'' @ [CHR 0x5C] @ ''style.css'')
       = ''css'' @ [CHR 0x5C] @ ''style.css''
   \<and> CHR 0x5C \<notin> set ''css/style.css''"
proof -
  let ?r = "\<lparr>localPath = windows_dist @ [CHR 0x5C] @ ''css'' @ [CHR 0x5C] @ ''style.css'',
            relativePath = ''css/style.css'', name = ''style.css'', size_bytes = 20\<rparr>"
  have h1: "getAllFiles backslash_paths windows_dist windows_dist site_tree =
     Inr [\<lparr>localPath = windows_dist @ [CHR 0x5C] @ ''index.html'', relativePath = ''index.html'',
            name = ''index.html'', size_bytes = 10\<rparr>, ?r]" by code_simp
  have h2: "path_relative backslash_paths windows_dist
         (windows_dist @ [CHR 0x5C] @ ''css'' @ [CHR 0x5C] @ ''style.css'')
       = ''css'' @ [CHR 0x5C] @ ''style.css''" by code_simp
  from relativePath_forward_slashes[OF h1, of ?r] h1 h2 show ?thesis by simp
qed

section \<open>The batch upload\<close>

lemma upload_each_length:
  "upload_each H P a s b files w = (outcomes, w') \<Longrightarrow> length outcomes = length files"
  by (induction files arbitrary: w outcomes) (auto split: prod.splits)

lemma upload_loop_spec:
  "upload_loop H P a s b files results w =
     (case upload_each H P a s b files w of
        (outcomes, w') \<Rightarrow>
          (results\<lparr>success := success results + length (filter (\<lambda>r. \<not> isl r) outcomes),
                    failed := failed results + length (filter isl outcomes),
                    errors := errors results @ failure_entries files outcomes\<rparr>, w'))"
proof (induction files arbitrary: results w)
  case Nil
  then show ?case by simp
next
  case (Cons f files)
  show ?case
  proof (cases "uploadFile H P a s b (localPath f) (path_dirname P (relativePath f)) w")
    case (Pair r w1)
    then show ?thesis
      by (cases r) (simp_all add: Cons.IH Let_def split: prod.splits)
  qed
qed

lemma failure_entries_length:
  "length outcomes = length files \<Longrightarrow>
     length (failure_entries files outcomes) = length (filter isl outcomes)"
proof (induction files outcomes rule: failure_entries.induct)
qed auto

lemma filter_isl_split:
  "length (filter (\<lambda>r. \<not> isl r) xs) + length (filter isl xs) = length xs"
  by (induction xs) auto

lemma upload_loop_counts:
  assumes "upload_loop H P a s b files results w = (results', w')"
  shows "total results' = total results"
    and "success results' + failed results' = success results + failed results + length files"
    and "length (errors results') + failed results = length (errors results) + failed results'"
proof -
  obtain outcomes w1 where e: "upload_each H P a s b files w = (outcomes, w1)"
    by (cases "upload_each H P a s b files w")
  then have len: "length outcomes = length files"
    by (rule upload_each_length)
  from assms e have r: "results' = results\<lparr>success := success results + length (filter (\<lambda>r. \<not> isl r) outcomes),
                    failed := failed results + length (filter isl outcomes),
                    errors := errors results @ failure_entries files outcomes\<rparr>"
    by (simp add: upload_loop_spec)
  show "total results' = total results" by (simp add: r)
  show "success results' + failed results' = success results + failed results + length files"
    using filter_isl_split[of outcomes] len by (simp add: r)
  show "length (errors results') + failed results = length (errors results) + failed results'"
    using failure_entries_length[OF len] by (simp add: r)
qed

text \<open>
  Claim C1. For a source directory whose walk succeeds, \<open>uploadDirectory\<close>
  returns a result whose \<open>total\<close> is the number of regular files of the tree
  (at any depth), with \<open>success + failed = total\<close> and as many entries in
  \<open>errors\<close> as \<open>failed\<close> counts.
\<close>

theorem uploadDirectory_totals:
  assumes "walk_ok (readdirSync H dir)"
  shows "\<exists>r w'. uploadDirectory H P tok site base dir w = (Inr r, w') \<and>
           total r = length (regular_files (readdirSync H dir)) \<and>
           success r + failed r = total r \<and>
           length (errors r) = failed r"
proof -
  from walk_complete(1)[OF assms, of P dir dir] obtain files where
    files: "getAllFiles P dir dir (readdirSync H dir) = Inr files"
    and d: "map describe files = map (expected P dir dir) (regular_files (readdirSync H dir))"
    by blast
  from d have n: "length files = length (regular_files (readdirSync H dir))"
    using length_map by metis
  let ?init = "\<lparr> total = length files, success = 0, failed = 0, errors = [] \<rparr>"
  obtain r w' where loop: "upload_loop H P tok site base files ?init w = (r, w')"
    by (cases "upload_loop H P tok site base files ?init w")
  from upload_loop_counts[OF loop] n
  have "total r = length (regular_files (readdirSync H dir))"
    "success r + failed r = total r" "length (errors r) = failed r" by simp_all
  moreover have "uploadDirectory H P tok site base dir w = (Inr r, w')"
    by (simp add: uploadDirectory_def files loop)
  ultimately show ?thesis by blast
qed

theorem uploadDirectory_totals_witness:
  "walk_ok (readdirSync accepting_host ''/work/dist'')
   \<and> length (regular_files (readdirSync accepting_host ''/work/dist'')) = 2
   \<and> uploadDirectory accepting_host (posix ''/work'') ''secret'' ''site1''
        ''https://api.example.com'' ''/work/dist'' ([], 5000)
       = (Inr \<lparr>total = 2, success = 2, failed = 0, errors = []\<rparr>,
          [index_request, style_request], 5000)"
proof -
  have h: "walk_ok (readdirSync accepting_host ''/work/dist'')" by code_simp
  have n: "length (regular_files (readdirSync accepting_host ''/work/dist'')) = 2" by code_simp
  have u: "uploadDirectory accepting_host (posix ''/work'') ''secret'' ''site1''
        ''https://api.example.com'' ''/work/dist'' ([], 5000)
       = (Inr \<lparr>total = 2, success = 2, failed = 0, errors = []\<rparr>,
          [index_request, style_request], 5000)" by code_simp
  from uploadDirectory_totals[OF h, of "posix ''/work''" "''secret''" "''site1''"
      "''https://api.example.com''" "([], 5000)"] h n u
  show ?thesis by simp
qed

text \<open>
  Claim C6. \<open>uploadDirectory\<close> calls \<open>uploadFile\<close> for every file of the
  enumeration, in order, whether or not earlier calls failed: its result and the
  outside state it leaves are those of one call per file. Each call that throws
  adds one to \<open>failed\<close> and appends exactly one entry, the file's relative
  path with the error's message, to \<open>errors\<close>; each other call adds one to
  \<open>success\<close>.
\<close>

theorem uploadDirectory_failures:
  assumes "getAllFiles P dir dir (readdirSync H dir) = Inr files"
    and "upload_each H P tok site base files w = (outcomes, w')"
  shows "length outcomes = length files \<and>
         (\<exists>r. uploadDirectory H P tok site base dir w = (Inr r, w') \<and>
              errors r = failure_entries files outcomes \<and>
              failed r = length (filter isl outcomes) \<and>
              success r = length (filter (\<lambda>r. \<not> isl r) outcomes) \<and>
              length (errors r) = failed r)"
proof -
  from assms(2) have len: "length outcomes = length files"
    by (rule upload_each_length)
  then show ?thesis
    using failure_entries_length[OF len]
    by (simp add: uploadDirectory_def assms upload_loop_spec)
qed

theorem uploadDirectory_failures_witness:
  "getAllFiles (posix ''/work'') ''/work/dist'' ''/work/dist''
       (readdirSync rejecting_first_host ''/work/dist'') = Inr [index_record, style_record]
   \<and> upload_each rejecting_first_host (posix ''/work'') ''secret'' ''site1''
        ''https://api.example.com'' [index_record, style_record] ([], 5000)
       = ([Inl (JsError ''Request failed with status code 500'' (Some 500)), Inr ''ok''],
          [index_request, style_request], 5000)
   \<and> uploadDirectory rejecting_first_host (posix ''/work'') ''secret'' ''site1''
        ''https://api.example.com'' ''/work/dist'' ([], 5000)
       = (Inr \<lparr>total = 2, success = 1, failed = 1,
                errors = [(''index.html'', ''Request failed with status code 500'')]\<rparr>,
          [index_request, style_request], 5000)"
proof -
  have h1: "getAllFiles (posix ''/work'') ''/work/dist'' ''/work/dist''
       (readdirSync rejecting_first_host ''/work/dist'') = Inr [index_record, style_record]"
    by code_simp
  have h2: "upload_each rejecting_first_host (posix ''/work'') ''secret'' ''site1''
        ''https://api.example.com'' [index_record, style_record] ([], 5000)
       = ([Inl (JsError ''Request failed with status code 500'' (Some 500)), Inr ''ok''],
          [index_request, style_request], 5000)" by code_simp
  have u: "uploadDirectory rejecting_first_host (posix ''/work'') ''secret'' ''site1''
        ''https://api.example.com'' ''/work/dist'' ([], 5000)
       = (Inr \<lparr>total = 2, success = 1, failed = 1,
                errors = [(''index.html'', ''Request failed with status code 500'')]\<rparr>,
          [index_request, style_request], 5000)" by code_simp
  from uploadDirectory_failures[OF h1 h2] h1 h2 u show ?thesis by simp
qed

text \<open>
  Claim C2. On the site of two files the walk produces the records of
  \<open>index.html\<close> and \<open>css/style.css\<close>, exactly two uploads are issued, and
  the result is \<open>{total: 2, success: 2, failed: 0, errors: []}\<close>. The upload
  path of \<open>css/style.css\<close> is \<open>css\<close>; the upload path of \<open>index.html\<close>
  is \<open>.\<close>, which is what \<open>path.dirname\<close> returns for a path without a
  directory part, and not the empty string that \<open>uploadFile\<close> takes for the
  remote root: the request carries \<open>path=.\<close> in its query and as a form
  field.
\<close>

theorem scenario_upload_paths:
  "getAllFiles (posix ''/work'') ''/work/dist'' ''/work/dist'' site_tree =
     Inr [\<lparr>localPath = ''/work/dist/index.html'', relativePath = ''index.html'',
            name = ''index.html'', size_bytes = 10\<rparr>,
          \<lparr>localPath = ''/work/dist/css/style.css'', relativePath = ''css/style.css'',
            name = ''style.css'', size_bytes = 20\<rparr>]
   \<and> path_dirname (posix ''/work'') ''index.html'' = ''.''
   \<and> path_dirname (posix ''/work'') ''css/style.css'' = ''css''
   \<and> uploadDirectory accepting_host (posix ''/work'') ''secret'' ''site1''
        ''https://api.example.com'' ''/work/dist'' ([], 5000) =
       (Inr \<lparr>total = 2, success = 2, failed = 0, errors = []\<rparr>,
        [index_request, style_request], 5000)
   \<and> post_path index_request = Some ''.''
   \<and> post_path style_request = Some ''css''"
  by code_simp

section \<open>Access validation\<close>

text \<open>
  Claim C7. When the probe succeeds \<open>validateApiAccess\<close> returns true. When
  it fails with status 401, 403 or 404, a new error is thrown whose message
  tells the three apart (the messages are pairwise different, for every site
  id); for any other status, and for a failure without a response, the error of
  the probe itself is thrown.
\<close>

theorem validateApiAccess_errors:
  assumes "listFiles H tok site base None w = (r, w')"
  shows "validateApiAccess H tok site base w =
           ((case r of
               Inr _ \<Rightarrow> Inr True
             | Inl e \<Rightarrow>
                 if response e = Some 401 then Inl (new_Error ''API Token invalid or expired'')
                 else if response e = Some 403 then
                   Inl (new_Error ''API Token lacks permission, website_hosting permission required'')
                 else if response e = Some 404 then Inl (new_Error (''site ID does not exist: '' @ site))
                 else Inl e), w')
         \<and> new_Error ''API Token invalid or expired''
             \<noteq> new_Error ''API Token lacks permission, website_hosting permission required''
         \<and> new_Error ''API Token invalid or expired'' \<noteq> new_Error (''site ID does not exist: '' @ site)
         \<and> new_Error ''API Token lacks permission, website_hosting permission required''
             \<noteq> new_Error (''site ID does not exist: '' @ site)"
  using assms
  by (cases r) (auto simp: validateApiAccess_def new_Error_def split: option.splits)

theorem validateApiAccess_errors_witness:
  "listFiles unauthorized_host ''secret'' ''site1'' ''https://api.example.com'' None ([], 5000)
     = (Inl (JsError ''Request failed with status code 401'' (Some 401)), ([], 5000))
   \<and> validateApiAccess unauthorized_host ''secret'' ''site1'' ''https://api.example.com'' ([], 5000)
     = (Inl (JsError ''API Token invalid or expired'' None), ([], 5000))"
proof -
  have h: "listFiles unauthorized_host ''secret'' ''site1'' ''https://api.example.com'' None ([], 5000)
     = (Inl (JsError ''Request failed with status code 401'' (Some 401)), ([], 5000))"
    by code_simp
  from validateApiAccess_errors[OF h] h show ?thesis by (simp add: new_Error_def)
qed

section \<open>The context loader\<close>

lemma check_variables_undefined:
  "(k, Undefined) \<in> set vars \<Longrightarrow>
     \<exists>k'. (k', Undefined) \<in> set vars \<and>
          check_variables vars = Inl (new_Error (k' @ '' is undefined. Cannot continue.''))"
  by (induction vars rule: check_variables.induct) auto

lemma check_variables_defined:
  "\<forall>kv \<in> set vars. snd kv \<noteq> Undefined \<Longrightarrow> check_variables vars = Inr ()"
  by (induction vars rule: check_variables.induct) auto

lemma getRequiredVars_shape:
  assumes "getRequiredVars R = Inr vars"
  shows "\<exists>tok site b d.
           core_getInput R ''api_base_url'' False = Inr b \<and>
           core_getInput R ''source_dir'' False = Inr d \<and>
           vars = [(''apiToken'', Str tok), (''siteId'', Str site),
               (''apiBaseUrl'', Str (if b \<noteq> [] then b else ''https://api.example.com'')),
               (''sourceDir'', Str (if d \<noteq> [] then d else ''./dist'')),
               (''targetPath'', Str ''/''),
               (''timeout'', Num 600000),
               (''maxRetries'', Num 3),
               (''workflowRun'', env_value R ''GITHUB_RUN_ID''),
               (''repositoryNwo'', env_value R ''GITHUB_REPOSITORY''),
               (''buildVersion'', env_value R ''GITHUB_SHA'')]"
proof -
  from assms obtain tok where tok: "core_getInput R ''api_token'' True = Inr tok"
    by (cases "core_getInput R ''api_token'' True") (simp_all add: getRequiredVars_def)
  from assms tok obtain site where site: "core_getInput R ''site_id'' True = Inr site"
    by (cases "core_getInput R ''site_id'' True") (simp_all add: getRequiredVars_def)
  from assms tok site obtain b where b: "core_getInput R ''api_base_url'' False = Inr b"
    by (cases "core_getInput R ''api_base_url'' False") (simp_all add: getRequiredVars_def)
  from assms tok site b obtain d where d: "core_getInput R ''source_dir'' False = Inr d"
    by (cases "core_getInput R ''source_dir'' False") (simp_all add: getRequiredVars_def)
  from assms tok site b d have
    "[(''apiToken'', Str tok), (''siteId'', Str site),
               (''apiBaseUrl'', Str (if b \<noteq> [] then b else ''https://api.example.com'')),
               (''sourceDir'', Str (if d \<noteq> [] then d else ''./dist'')),
               (''targetPath'', Str ''/''),
               (''timeout'', Num 600000),
               (''maxRetries'', Num 3),
               (''workflowRun'', env_value R ''GITHUB_RUN_ID''),
               (''repositoryNwo'', env_value R ''GITHUB_REPOSITORY''),
               (''buildVersion'', env_value R ''GITHUB_SHA'')] = vars"
    by (simp add: getRequiredVars_def)
  from this[symmetric] b d show ?thesis by blast
qed

text \<open>
  Claim C10. Whenever a property of the object \<open>getRequiredVars\<close> returns
  is undefined, \<open>getContext\<close> throws an error whose message names an undefined
  property. This holds for every property, in particular for the three that
  come from the environment and serve logging only: without
  \<open>GITHUB_RUN_ID\<close> the error names \<open>workflowRun\<close>, then
  \<open>repositoryNwo\<close> for \<open>GITHUB_REPOSITORY\<close> and \<open>buildVersion\<close> for
  \<open>GITHUB_SHA\<close>. When no property is undefined the object is returned. With
  an empty \<open>api_base_url\<close> input the base URL is the placeholder
  \<open>https://api.example.com\<close>, and with an empty \<open>source_dir\<close> input the
  source directory is \<open>./dist\<close>.
\<close>

theorem getContext_undefined:
  assumes "getRequiredVars R = Inr vars"
  shows "((\<exists>k. (k, Undefined) \<in> set vars) \<longrightarrow>
            (\<exists>k. (k, Undefined) \<in> set vars \<and>
                 getContext R = Inl (new_Error (k @ '' is undefined. Cannot continue.''))))
       \<and> (process_env R ''GITHUB_RUN_ID'' = None \<longrightarrow>
            getContext R = Inl (new_Error ''workflowRun is undefined. Cannot continue.''))
       \<and> (process_env R ''GITHUB_RUN_ID'' \<noteq> None \<and> process_env R ''GITHUB_REPOSITORY'' = None \<longrightarrow>
            getContext R = Inl (new_Error ''repositoryNwo is undefined. Cannot continue.''))
       \<and> (process_env R ''GITHUB_RUN_ID'' \<noteq> None \<and> process_env R ''GITHUB_REPOSITORY'' \<noteq> None \<and>
          process_env R ''GITHUB_SHA'' = None \<longrightarrow>
            getContext R = Inl (new_Error ''buildVersion is undefined. Cannot continue.''))
       \<and> ((\<forall>kv \<in> set vars. snd kv \<noteq> Undefined) \<longrightarrow> getContext R = Inr vars)
       \<and> (core_getInput R ''api_base_url'' False = Inr [] \<longrightarrow>
            get_property vars ''apiBaseUrl'' = Str ''https://api.example.com'')
       \<and> (core_getInput R ''source_dir'' False = Inr [] \<longrightarrow>
            get_property vars ''sourceDir'' = Str ''./dist'')"
proof -
  from getRequiredVars_shape[OF assms] obtain tok site b d where
    b: "core_getInput R ''api_base_url'' False = Inr b" and
    d: "core_getInput R ''source_dir'' False = Inr d" and
    vars: "vars = [(''apiToken'', Str tok), (''siteId'', Str site),
               (''apiBaseUrl'', Str (if b \<noteq> [] then b else ''https://api.example.com'')),
               (''sourceDir'', Str (if d \<noteq> [] then d else ''./dist'')),
               (''targetPath'', Str ''/''),
               (''timeout'', Num 600000),
               (''maxRetries'', Num 3),
               (''workflowRun'', env_value R ''GITHUB_RUN_ID''),
               (''repositoryNwo'', env_value R ''GITHUB_REPOSITORY''),
               (''buildVersion'', env_value R ''GITHUB_SHA'')]" by blast
  have ctx: "getContext R = (case check_variables vars of Inl e \<Rightarrow> Inl e | Inr _ \<Rightarrow> Inr vars)"
    by (simp add: getContext_def assms)
  have g1: "(\<exists>k. (k, Undefined) \<in> set vars) \<longrightarrow>
            (\<exists>k. (k, Undefined) \<in> set vars \<and>
                 getContext R = Inl (new_Error (k @ '' is undefined. Cannot continue.'')))"
  proof
    assume "\<exists>k. (k, Undefined) \<in> set vars"
    then obtain k where "(k, Undefined) \<in> set vars" by blast
    from check_variables_undefined[OF this] obtain k' where
      "(k', Undefined) \<in> set vars"
      "check_variables vars = Inl (new_Error (k' @ '' is undefined. Cannot continue.''))" by blast
    then show "\<exists>k. (k, Undefined) \<in> set vars \<and>
                 getContext R = Inl (new_Error (k @ '' is undefined. Cannot continue.''))"
      by (auto simp: ctx)
  qed
  have g2: "process_env R ''GITHUB_RUN_ID'' = None \<longrightarrow>
            getContext R = Inl (new_Error ''workflowRun is undefined. Cannot continue.'')"
    by (simp add: ctx vars env_value_def)
  have g3: "process_env R ''GITHUB_RUN_ID'' \<noteq> None \<and> process_env R ''GITHUB_REPOSITORY'' = None \<longrightarrow>
            getContext R = Inl (new_Error ''repositoryNwo is undefined. Cannot continue.'')"
    by (auto simp: ctx vars env_value_def)
  have g4: "process_env R ''GITHUB_RUN_ID'' \<noteq> None \<and> process_env R ''GITHUB_REPOSITORY'' \<noteq> None \<and>
          process_env R ''GITHUB_SHA'' = None \<longrightarrow>
            getContext R = Inl (new_Error ''buildVersion is undefined. Cannot continue.'')"
    by (auto simp: ctx vars env_value_def)
  have g5: "(\<forall>kv \<in> set vars. snd kv \<noteq> Undefined) \<longrightarrow> getContext R = Inr vars"
    using check_variables_defined[of vars] by (simp add: ctx)
  have g6: "core_getInput R ''api_base_url'' False = Inr [] \<longrightarrow>
            get_property vars ''apiBaseUrl'' = Str ''https://api.example.com''"
    using b by (auto simp: vars get_property_def)
  have g7: "core_getInput R ''source_dir'' False = Inr [] \<longrightarrow>
            get_property vars ''sourceDir'' = Str ''./dist''"
    using d by (auto simp: vars get_property_def)
  from g1 g2 g3 g4 g5 g6 g7 show ?thesis by blast
qed

theorem getContext_undefined_witness:
  "getRequiredVars bare_runner =
     Inr [(''apiToken'', Str ''secret''), (''siteId'', Str ''site1''),
          (''apiBaseUrl'', Str ''https://api.example.com''), (''sourceDir'', Str ''./dist''),
          (''targetPath'', Str ''/''), (''timeout'', Num 600000), (''maxRetries'', Num 3),
          (''workflowRun'', Undefined), (''repositoryNwo'', Undefined),
          (''buildVersion'', Undefined)]
   \<and> process_env bare_runner ''GITHUB_RUN_ID'' = None
   \<and> core_getInput bare_runner ''api_base_url'' False = Inr []
   \<and> core_getInput bare_runner ''source_dir'' False = Inr []
   \<and> getContext bare_runner = Inl (JsError ''workflowRun is undefined. Cannot continue.'' None)"
proof -
  have h: "getRequiredVars bare_runner =
     Inr [(''apiToken'', Str ''secret''), (''siteId'', Str ''site1''),
          (''apiBaseUrl'', Str ''https://api.example.com''), (''sourceDir'', Str ''./dist''),
          (''targetPath'', Str ''/''), (''timeout'', Num 600000), (''maxRetries'', Num 3),
          (''workflowRun'', Undefined), (''repositoryNwo'', Undefined),
          (''buildVersion'', Undefined)]" by code_simp
  have e: "process_env bare_runner ''GITHUB_RUN_ID'' = None" by code_simp
  have b: "core_getInput bare_runner ''api_base_url'' False = Inr []" by code_simp
  have d: "core_getInput bare_runner ''source_dir'' False = Inr []" by code_simp
  from getContext_undefined[OF h] h e b d show ?thesis by (simp add: new_Error_def)
qed

section \<open>The orchestrator\<close>

lemma scenario_constructor: "FileUploader scenario_runner = Inr scenario_uploader"
  by code_simp

lemma create_try_status:
  assumes "create_try H P this w = (res, this', w')"
  shows "case res of
           Inr info \<Rightarrow> uploadInfo this' = Some info \<and>
                       (status this' = Success \<longleftrightarrow> failed info = 0) \<and>
                       (status this' = Failed \<longleftrightarrow> failed info \<noteq> 0)
         | Inl e \<Rightarrow> True"
  using assms
  by (auto simp: create_try_def Let_def split: sum.splits if_splits prod.splits)

text \<open>
  Claim C5. When \<open>create\<close> returns, the upload information it returns is
  stored in the object, and the status is \<open>success\<close> exactly when no file
  failed and \<open>failed\<close> exactly when at least one did. When \<open>create\<close>
  throws, the status is \<open>failed\<close>.
\<close>

theorem create_status:
  assumes "create H P this w = (res, this', w')"
  shows "(\<forall>info. res = Inr info \<longrightarrow>
            uploadInfo this' = Some info \<and>
            (status this' = Success \<longleftrightarrow> failed info = 0) \<and>
            (status this' = Failed \<longleftrightarrow> failed info \<noteq> 0))
       \<and> (\<forall>e. res = Inl e \<longrightarrow> status this' = Failed)"
proof -
  let ?this = "if timeout this > MAX_TIMEOUT then this\<lparr>timeout := MAX_TIMEOUT\<rparr> else this"
  obtain r1 t1 w1 where ct: "create_try H P ?this w = (r1, t1, w1)"
    by (cases "create_try H P ?this w")
  show ?thesis
  proof (cases r1)
    case (Inl e)
    with assms ct show ?thesis
      by (auto simp: create_def Let_def split: option.splits)
  next
    case (Inr info)
    with assms ct have "res = Inr info" "this' = t1" by (auto simp: create_def Let_def)
    with create_try_status[OF ct] Inr show ?thesis by auto
  qed
qed

theorem create_status_witness:
  "create accepting_host (posix ''/work'') scenario_uploader ([], 5000) =
     (Inr full_info,
      scenario_uploader\<lparr>uploadInfo := Some full_info, startTime := Some 5000, status := Success\<rparr>,
      [index_request, style_request], 7000)
   \<and> failed full_info = 0
   \<and> create unauthorized_host (posix ''/work'') scenario_uploader ([], 5000) =
     (Inl (JsError ''API Token invalid or expired'' None),
      scenario_uploader\<lparr>status := Failed\<rparr>, [], 5000)"
proof -
  have h1: "create accepting_host (posix ''/work'') scenario_uploader ([], 5000) =
     (Inr full_info,
      scenario_uploader\<lparr>uploadInfo := Some full_info, startTime := Some 5000, status := Success\<rparr>,
      [index_request, style_request], 7000)" by code_simp
  have h2: "create unauthorized_host (posix ''/work'') scenario_uploader ([], 5000) =
     (Inl (JsError ''API Token invalid or expired'' None),
      scenario_uploader\<lparr>status := Failed\<rparr>, [], 5000)" by code_simp
  have h3: "failed full_info = 0" by code_simp
  from create_status[OF h1] create_status[OF h2] h1 h2 h3 show ?thesis by simp
qed

text \<open>
  Claim C3, as stated, asks \<open>cancel\<close> to force every pending or uploading
  orchestrator to \<open>cancelled\<close>. The object the constructor builds is pending
  and has no upload record, and \<open>cancel\<close> leaves it as it is.
\<close>

theorem cancel_pending_counterexample:
  "status scenario_uploader = Pending
   \<and> cancel accepting_host scenario_uploader ([], 5000) = (scenario_uploader, ([], 5000))
   \<and> status (fst (cancel accepting_host scenario_uploader ([], 5000))) \<noteq> Cancelled"
  by code_simp

text \<open>
  Claim C3, amended. For an orchestrator that holds an upload record and whose
  status is neither \<open>success\<close> nor \<open>failed\<close>, \<open>cancel\<close> sets the status
  to \<open>cancelled\<close>, marks the record cancelled and stamps the current time as
  its end time. For a pending orchestrator without an upload record,
  \<open>cancel\<close> changes nothing.
\<close>

theorem cancel_effect:
  "(uploadInfo this = Some info \<and> status this \<noteq> Success \<and> status this \<noteq> Failed \<longrightarrow>
      cancel H this w =
        (this\<lparr>status := Cancelled,
              uploadInfo := Some (info\<lparr>cancelled := True, endTime := fst (Date_now H w)\<rparr>)\<rparr>,
         snd (Date_now H w)))
   \<and> (uploadInfo this = None \<and> status this = Pending \<longrightarrow> cancel H this w = (this, w))"
  by (auto simp: cancel_def Let_def split: prod.splits)

theorem cancel_effect_witness:
  "uploadInfo midway_uploader = Some full_info
   \<and> status midway_uploader = Uploading
   \<and> cancel accepting_host midway_uploader ([], 9000) = (cancelled_uploader, ([], 10000))
   \<and> status cancelled_uploader = Cancelled
   \<and> uploadInfo cancelled_uploader = Some (full_info\<lparr>endTime := 9000, cancelled := True\<rparr>)
   \<and> uploadInfo scenario_uploader = None \<and> status scenario_uploader = Pending
   \<and> cancel accepting_host scenario_uploader ([], 9000) = (scenario_uploader, ([], 9000))"
proof -
  have h1: "uploadInfo midway_uploader = Some full_info" by code_simp
  have h2: "status midway_uploader = Uploading" by code_simp
  have h3: "uploadInfo scenario_uploader = None" by code_simp
  have h4: "status scenario_uploader = Pending" by code_simp
  have h5: "status cancelled_uploader = Cancelled" by code_simp
  have h6: "uploadInfo cancelled_uploader = Some (full_info\<lparr>endTime := 9000, cancelled := True\<rparr>)" by code_simp
  have h7: "cancel accepting_host midway_uploader ([], 9000) = (cancelled_uploader, ([], 10000))"
    by code_simp
  have a: "cancel accepting_host scenario_uploader ([], 9000) = (scenario_uploader, ([], 9000))"
    using cancel_effect[of scenario_uploader full_info accepting_host "([], 9000)"] h3 h4 by simp
  have b: "cancel accepting_host midway_uploader ([], 9000) =
        (midway_uploader\<lparr>status := Cancelled,
              uploadInfo := Some (full_info\<lparr>cancelled := True, endTime := fst (Date_now accepting_host ([], 9000))\<rparr>)\<rparr>,
         snd (Date_now accepting_host ([], 9000)))"
    using cancel_effect[of midway_uploader full_info accepting_host "([], 9000)"] h1 h2 by simp
  from a b h1 h2 h3 h4 h5 h6 h7 show ?thesis by simp
qed

text \<open>
  Claim C4. On the site of two files, with the upload of \<open>css/style.css\<close>
  rejected with status 500, \<open>create\<close> ends with status \<open>failed\<close> and one
  entry in \<open>errors\<close>. \<open>check\<close> then reports the hard failure, the status
  output and the duration, and emits no warning: the warnings that list the
  failed files are in the branch of status \<open>success\<close>, which a run with a
  failed file never takes.
\<close>

theorem check_after_partial_failure:
  "create rejecting_host (posix ''/work'') scenario_uploader ([], 5000) =
     (Inr partial_info,
      scenario_uploader\<lparr>uploadInfo := Some partial_info, startTime := Some 5000, status := Failed\<rparr>,
      [index_request, style_request], 7000)
   \<and> errors partial_info = [(''css/style.css'', ''Request failed with status code 500'')]
   \<and> check (scenario_uploader\<lparr>uploadInfo := Some partial_info, startTime := Some 5000,
                                 status := Failed\<rparr>) =
       [Info ''checking upload status...'', SetFailed ''file upload failed'',
        SetOutput ''status'' (Text ''failed''), Info ''upload took: 1 seconds'',
        SetOutput ''duration'' (Text ''1000'')]"
  by code_simp

end
